theory Spec2Isabelle
  imports Main "HOL-Library.Word" "HOL-Library.Multiset"
begin

section \<open>Statistics/VariableRefreshRateStatistic.h\<close>

text \<open>
  \<^verbatim>\<open>hwc2_config_t\<close> is an unsigned 32-bit handle, so the default \<^verbatim>\<open>-1\<close> of
  \<^verbatim>\<open>mActiveConfigId\<close> is the largest handle and \<^verbatim>\<open><\<close> on it is unsigned.
  \<^verbatim>\<open>mPowerMode\<close> is a C \<^verbatim>\<open>int\<close> that is only compared, never computed with.
  \<^verbatim>\<open>BrightnessMode\<close> is an enum class declared outside these sources; a value of it is
  taken as its underlying integer, which is what \<^verbatim>\<open><\<close> on an enum class compares.
\<close>

type_synonym hwc2_config_t = "32 word"

text \<open>
  The power modes of the platform header \<^verbatim>\<open>hardware/hwcomposer_defs.h\<close>, which the
  header includes through \<^verbatim>\<open>hardware/hwcomposer2.h\<close>.
\<close>

definition HWC_POWER_MODE_OFF :: int where
  "HWC_POWER_MODE_OFF = 0"

definition HWC_POWER_MODE_DOZE :: int where
  "HWC_POWER_MODE_DOZE = 1"

definition HWC_POWER_MODE_NORMAL :: int where
  "HWC_POWER_MODE_NORMAL = 2"

definition HWC_POWER_MODE_DOZE_SUSPEND :: int where
  "HWC_POWER_MODE_DOZE_SUSPEND = 3"

record DisplayStatus =
  mActiveConfigId :: hwc2_config_t
  mPowerMode :: int
  mBrightnessMode :: int

definition isOff :: "DisplayStatus \<Rightarrow> bool" where
  "isOff s =
     (if mPowerMode s = HWC_POWER_MODE_OFF \<or> mPowerMode s = HWC_POWER_MODE_DOZE_SUSPEND
      then True else False)"

text \<open>\<^verbatim>\<open>DisplayStatus::operator==\<close>\<close>

definition DisplayStatus_eq :: "DisplayStatus \<Rightarrow> DisplayStatus \<Rightarrow> bool" where
  "DisplayStatus_eq lhs rhs =
     (if isOff lhs \<or> isOff rhs then isOff lhs = isOff rhs
      else mActiveConfigId lhs = mActiveConfigId rhs \<and> mPowerMode lhs = mPowerMode rhs \<and>
           mBrightnessMode lhs = mBrightnessMode rhs)"

text \<open>
  \<^verbatim>\<open>DisplayStatus::operator<\<close>. The first test returns only when both sides are off;
  with one side off, control falls through to the comparison of the fields.
\<close>

definition DisplayStatus_less :: "DisplayStatus \<Rightarrow> DisplayStatus \<Rightarrow> bool" where
  "DisplayStatus_less lhs rhs =
     (if (isOff lhs \<or> isOff rhs) \<and> isOff lhs = isOff rhs then False
      else if mPowerMode lhs \<noteq> mPowerMode rhs then mPowerMode lhs < mPowerMode rhs
      else if mActiveConfigId lhs \<noteq> mActiveConfigId rhs
           then mActiveConfigId lhs < mActiveConfigId rhs
      else mBrightnessMode lhs < mBrightnessMode rhs)"

text \<open>
  \<^verbatim>\<open>DisplayPresentRecord\<close>: two \<^verbatim>\<open>uint64_t\<close> fields and a flag. \<^verbatim>\<open>+=\<close> on
  \<^verbatim>\<open>uint64_t\<close> wraps, and \<^verbatim>\<open>std::max\<close> compares unsigned, as \<open>+\<close> and \<open>max\<close> on
  \<open>64 word\<close> do.
\<close>

record DisplayPresentRecord =
  mCount :: "64 word"
  mLastTimeStampNs :: "64 word"
  mUpdated :: bool

text \<open>\<^verbatim>\<open>DisplayPresentRecord() = default\<close>\<close>

definition DisplayPresentRecord_default :: DisplayPresentRecord where
  "DisplayPresentRecord_default = \<lparr>mCount = 0, mLastTimeStampNs = 0, mUpdated = False\<rparr>"

text \<open>\<^verbatim>\<open>DisplayPresentRecord::operator+=\<close>\<close>

definition DisplayPresentRecord_add ::
  "DisplayPresentRecord \<Rightarrow> DisplayPresentRecord \<Rightarrow> DisplayPresentRecord" where
  "DisplayPresentRecord_add this other =
     this\<lparr>mCount := mCount this + mCount other,
          mLastTimeStampNs := max (mLastTimeStampNs this) (mLastTimeStampNs other),
          mUpdated := True\<rparr>"

text \<open>Three statuses with the same configuration and brightness: off, suspended, dozing.\<close>

definition status_off :: DisplayStatus where
  "status_off = \<lparr>mActiveConfigId = 1, mPowerMode = HWC_POWER_MODE_OFF, mBrightnessMode = 0\<rparr>"

definition status_doze_suspend :: DisplayStatus where
  "status_doze_suspend =
     \<lparr>mActiveConfigId = 1, mPowerMode = HWC_POWER_MODE_DOZE_SUSPEND, mBrightnessMode = 0\<rparr>"

definition status_doze :: DisplayStatus where
  "status_doze = \<lparr>mActiveConfigId = 1, mPowerMode = HWC_POWER_MODE_DOZE, mBrightnessMode = 0\<rparr>"

section \<open>VariableRefreshRateController.cpp\<close>

subsection \<open>Data\<close>

text \<open>
  The class, its enums and its structs are declared in \<^verbatim>\<open>VariableRefreshRateController.h\<close>,
  which is not among the sources; their members are taken from the uses in the \<^verbatim>\<open>.cpp\<close> file.
  The four event types are the ones the file names. 64-bit times are integers: the file adds
  a duration to a clock reading and compares, and signed overflow is undefined in C++.
\<close>

datatype VrrControllerState = kDisable | kRendering | kHibernate

datatype VrrControllerEventType =
  kRenderingTimeout | kHibernateTimeout | kNotifyExpectedPresentConfig | kNextFrameInsertion

record VrrControllerEvent =
  mEventType :: VrrControllerEventType
  mWhenNs :: int

text \<open>
  The element of \<^verbatim>\<open>mRecord.mNextExpectedPresentTime\<close>, \<^verbatim>\<open>mPendingCurrentPresentTime\<close>
  and \<^verbatim>\<open>mPresentHistory\<close>; the file builds it as \<^verbatim>\<open>{mVrrActiveConfig, timestamp, interval}\<close>
  and reads \<^verbatim>\<open>.time\<close> and \<^verbatim>\<open>.duration\<close>.
\<close>

record PresentEvent =
  config :: hwc2_config_t
  time :: int
  duration :: int

record VrrRecord =
  mNextExpectedPresentTime :: "PresentEvent option"
  mPendingCurrentPresentTime :: "PresentEvent option"
  mPresentHistory :: "PresentEvent list"

record NotifyExpectedPresentConfig_t =
  TimeoutNs :: int

record VrrConfig_t =
  minFrameIntervalNs :: int
  notifyExpectedPresentConfig :: NotifyExpectedPresentConfig_t

text \<open>
  What the file uses of the missing declarations without fixing its value: the capacity of
  the present history ring, the configuration that \<^verbatim>\<open>operator[]\<close> of the configuration
  table inserts for an absent key, and \<^verbatim>\<open>kDefaultWakeUpTimeInPowerSaving\<close>.
\<close>

record header =
  kDefaultRingBufferCapacity :: nat
  VrrConfig_t_default :: VrrConfig_t
  kDefaultWakeUpTimeInPowerSaving :: int

text \<open>
  The controller. \<^verbatim>\<open>mEventQueue\<close> is a \<^verbatim>\<open>std::priority_queue\<close>: a bag of events, of
  which \<^verbatim>\<open>top()\<close> shows a greatest one. \<^verbatim>\<open>mFileNodeWritter\<close> is a \<^verbatim>\<open>unique_ptr\<close> that the
  constructor leaves null when the display has no panel file node; the field says whether
  it holds a writer.
\<close>

record controller =
  mEventQueue :: "VrrControllerEvent multiset"
  mRecord :: VrrRecord
  mState :: VrrControllerState
  mVrrActiveConfig :: hwc2_config_t
  mVrrConfigs :: "hwc2_config_t \<rightharpoonup> VrrConfig_t"
  mFileNodeWritter :: bool
  mEnabled :: bool
  mThreadExit :: bool
  mPendingFramesToInsert :: int

text \<open>
  What a call does besides changing the controller, in the order the code does it: a log
  line with its severity, the command written to the panel node, the \<^verbatim>\<open>notify_all\<close> on
  \<^verbatim>\<open>mCondition\<close>.
\<close>

datatype severity = INFO | WARNING | ERROR

datatype effect =
  Log severity
| WriteCommandString string
| NotifyAll

text \<open>Dereferencing the null \<^verbatim>\<open>mFileNodeWritter\<close>; an event that \<^verbatim>\<open>top()\<close> cannot return.\<close>

datatype fault = NullFileNodeWriter | NotOnTop

subsection \<open>Helpers of the missing header\<close>

text \<open>
  Modelled from the spec: the \<^verbatim>\<open>RingBuffer\<close> template behind \<^verbatim>\<open>mPresentHistory\<close> is missing.
  "Fixed-capacity ring of ExpectedPresent-like records, overwriting oldest on wrap":
  \<^verbatim>\<open>next() = x\<close> stores \<open>x\<close> as the newest record and keeps the newest \<open>cap\<close> records.
\<close>

definition RingBuffer_next :: "nat \<Rightarrow> 'a \<Rightarrow> 'a list \<Rightarrow> 'a list" where
  "RingBuffer_next cap x xs = drop (Suc (length xs) - cap) (xs @ [x])"

text \<open>
  Modelled from the spec: \<^verbatim>\<open>VrrRecord::clear\<close> is missing. "Clears the present ring and
  pending descriptors."
\<close>

definition VrrRecord_clear :: "VrrRecord \<Rightarrow> VrrRecord" where
  "VrrRecord_clear r =
     r\<lparr>mNextExpectedPresentTime := None, mPendingCurrentPresentTime := None,
       mPresentHistory := []\<rparr>"

text \<open>
  Modelled from the spec: \<^verbatim>\<open>VrrControllerEvent::operator<\<close> is missing. "Ordered
  earliest-first": \<^verbatim>\<open>top()\<close> returns an event of the queue that no other event precedes
  in time. Which one of several events of the same instant it returns depends on the heap,
  so the event is named by the caller, and \<open>is_top\<close> says that \<^verbatim>\<open>top()\<close> can return it.
\<close>

definition is_top :: "VrrControllerEvent \<Rightarrow> VrrControllerEvent multiset \<Rightarrow> bool" where
  "is_top e q \<longleftrightarrow> e \<in># q \<and> (\<forall>e' \<in># q. mWhenNs e \<le> mWhenNs e')"

text \<open>
  \<^verbatim>\<open>mVrrConfigs[k]\<close> on a \<^verbatim>\<open>std::unordered_map\<close>: the value stored under \<open>k\<close>; for an
  absent key a default configuration is inserted first.
\<close>

definition mVrrConfigs_at :: "header \<Rightarrow> hwc2_config_t \<Rightarrow> controller \<Rightarrow> VrrConfig_t \<times> controller" where
  "mVrrConfigs_at h k c =
     (case mVrrConfigs c k of
        Some v \<Rightarrow> (v, c)
      | None \<Rightarrow> (VrrConfig_t_default h,
                 c\<lparr>mVrrConfigs := (mVrrConfigs c)(k \<mapsto> VrrConfig_t_default h)\<rparr>))"

subsection \<open>Operations\<close>

text \<open>
  Every operation takes the controller and returns the new one with the effects. Where the
  code reads the clock, the reading is an argument (\<open>now\<close>); the result of the write to the
  panel node is an argument too (\<open>wr\<close>).
\<close>

definition postEvent :: "VrrControllerEventType \<Rightarrow> int \<Rightarrow> controller \<Rightarrow> controller" where
  "postEvent type when c =
     c\<lparr>mEventQueue := add_mset \<lparr>mEventType = type, mWhenNs = when\<rparr> (mEventQueue c)\<rparr>"

text \<open>\<^verbatim>\<open>dropEventLocked()\<close>\<close>

definition dropEventLocked_all :: "controller \<Rightarrow> controller" where
  "dropEventLocked_all c = c\<lparr>mEventQueue := {#}\<rparr>"

text \<open>
  \<^verbatim>\<open>dropEventLocked(event_type)\<close>: the loop moves every event of another type to a new queue.
\<close>

definition dropEventLocked :: "VrrControllerEventType \<Rightarrow> controller \<Rightarrow> controller" where
  "dropEventLocked event_type c =
     c\<lparr>mEventQueue := filter_mset (\<lambda>it. mEventType it \<noteq> event_type) (mEventQueue c)\<rparr>"

text \<open>
  Modelled from the spec: the initial values of the members that the constructor does not
  set (\<^verbatim>\<open>mEnabled\<close>, \<^verbatim>\<open>mThreadExit\<close>, \<^verbatim>\<open>mPendingFramesToInsert\<close> and the containers get
  them in the missing class declaration). The worker starts parked and not stopped, no
  frame is to be inserted, the queue, the record and the table are empty. The rest is the
  constructor: the state is \<^verbatim>\<open>kDisable\<close>, and a writer is made when the display has a panel
  file node (\<open>node\<close>). \<open>active\<close> is the value \<^verbatim>\<open>mVrrActiveConfig\<close> starts with.
\<close>

definition VariableRefreshRateController_new :: "bool \<Rightarrow> hwc2_config_t \<Rightarrow> controller" where
  "VariableRefreshRateController_new node active =
     \<lparr>mEventQueue = {#},
      mRecord = \<lparr>mNextExpectedPresentTime = None, mPendingCurrentPresentTime = None,
                 mPresentHistory = []\<rparr>,
      mState = kDisable,
      mVrrActiveConfig = active,
      mVrrConfigs = Map.empty,
      mFileNodeWritter = node,
      mEnabled = False,
      mThreadExit = False,
      mPendingFramesToInsert = 0\<rparr>"

definition notifyExpectedPresent ::
  "int \<Rightarrow> int \<Rightarrow> int \<Rightarrow> controller \<Rightarrow> int \<times> controller \<times> effect list" where
  "notifyExpectedPresent timestamp frameIntervalNs now c =
     (let c1 = c\<lparr>mRecord := (mRecord c)\<lparr>mNextExpectedPresentTime :=
                   Some \<lparr>config = mVrrActiveConfig c, time = timestamp,
                         duration = frameIntervalNs\<rparr>\<rparr>\<rparr>;
          c2 = postEvent kNotifyExpectedPresentConfig now c1
      in (0, c2, [NotifyAll]))"

definition reset :: "controller \<Rightarrow> controller \<times> effect list" where
  "reset c =
     (let c1 = c\<lparr>mEventQueue := {#}\<rparr>;
          c2 = c1\<lparr>mRecord := VrrRecord_clear (mRecord c1)\<rparr>
      in (dropEventLocked_all c2, []))"

definition setActiveVrrConfiguration ::
  "header \<Rightarrow> hwc2_config_t \<Rightarrow> int \<Rightarrow> controller \<Rightarrow> controller \<times> effect list" where
  "setActiveVrrConfiguration h cfg now c =
     (if mVrrConfigs c cfg = None then (c, [Log ERROR])
      else
        let c1 = c\<lparr>mState := kRendering\<rparr>;
            c2 = c1\<lparr>mVrrActiveConfig := cfg\<rparr>;
            c3 = dropEventLocked kRenderingTimeout c2;
            (vrrConfig, c4) = mVrrConfigs_at h (mVrrActiveConfig c3) c3;
            c5 = postEvent kRenderingTimeout
                   (now + TimeoutNs (notifyExpectedPresentConfig vrrConfig)) c4
        in (c5, [NotifyAll]))"

definition setEnable :: "bool \<Rightarrow> controller \<Rightarrow> controller \<times> effect list" where
  "setEnable isEnabled c =
     (if mEnabled c = isEnabled then (c, [])
      else
        let c1 = c\<lparr>mEnabled := isEnabled\<rparr>;
            c2 = (if mEnabled c1 = False then dropEventLocked_all c1 else c1)
        in (c2, [NotifyAll]))"

definition setVrrConfigurations ::
  "(hwc2_config_t \<rightharpoonup> VrrConfig_t) \<Rightarrow> controller \<Rightarrow> controller \<times> effect list" where
  "setVrrConfigurations configs c = (c\<lparr>mVrrConfigs := configs\<rparr>, [])"

definition stopThread :: "controller \<Rightarrow> controller \<times> effect list" where
  "stopThread c =
     (c\<lparr>mThreadExit := True, mEnabled := False, mState := kDisable\<rparr>, [NotifyAll])"

definition onPresent :: "header \<Rightarrow> int \<Rightarrow> controller \<Rightarrow> controller \<times> effect list" where
  "onPresent h now c =
     (case mPendingCurrentPresentTime (mRecord c) of
        None \<Rightarrow> (c, [Log WARNING])
      | Some p \<Rightarrow>
          let c1 = c\<lparr>mRecord := (mRecord c)\<lparr>mPresentHistory :=
                        RingBuffer_next (kDefaultRingBufferCapacity h) p
                          (mPresentHistory (mRecord c))\<rparr>\<rparr>;
              c2 = c1\<lparr>mRecord := (mRecord c1)\<lparr>mPendingCurrentPresentTime := None\<rparr>\<rparr>;
              (c3, out3) =
                (if mState c2 = kHibernate
                 then (dropEventLocked kHibernateTimeout (c2\<lparr>mState := kRendering\<rparr>),
                       [Log WARNING])
                 else (c2, []));
              c4 = dropEventLocked kRenderingTimeout c3;
              c5 = dropEventLocked kNextFrameInsertion c4;
              (vrrConfig, c6) = mVrrConfigs_at h (mVrrActiveConfig c5) c5;
              c7 = postEvent kRenderingTimeout
                     (now + TimeoutNs (notifyExpectedPresentConfig vrrConfig)) c6
          in (c7, [Log INFO] @ out3 @ [NotifyAll]))"

definition setExpectedPresentTime :: "int \<Rightarrow> int \<Rightarrow> controller \<Rightarrow> controller \<times> effect list" where
  "setExpectedPresentTime timestampNanos frameIntervalNs c =
     (c\<lparr>mRecord := (mRecord c)\<lparr>mPendingCurrentPresentTime :=
          Some \<lparr>config = mVrrActiveConfig c, time = timestampNanos,
                duration = frameIntervalNs\<rparr>\<rparr>\<rparr>, [])"

definition onVsync :: "int \<Rightarrow> int \<Rightarrow> controller \<Rightarrow> controller \<times> effect list" where
  "onVsync timestampNanos vsyncPeriodNanos c = (c, [])"

definition kNodeName :: string where
  "kNodeName = ''refresh_ctrl''"

text \<open>
  \<^verbatim>\<open>doFrameInsertionLocked()\<close>. The value returned after a write that succeeded is the
  \<^verbatim>\<open>bool\<close> \<^verbatim>\<open>ret\<close> converted to \<^verbatim>\<open>int\<close>, 1.
\<close>

definition doFrameInsertionLocked ::
  "header \<Rightarrow> int \<Rightarrow> bool \<Rightarrow> controller \<Rightarrow> fault + (int \<times> controller \<times> effect list)" where
  "doFrameInsertionLocked h now wr c =
     (if mPendingFramesToInsert c \<le> 0 then Inr (- 1, c, [Log ERROR])
      else if \<not> mFileNodeWritter c then Inl NullFileNodeWriter
      else if \<not> wr then Inr (- 1, c, [WriteCommandString kNodeName, Log ERROR])
      else
        let c1 = c\<lparr>mPendingFramesToInsert := mPendingFramesToInsert c - 1\<rparr>;
            c3 = (if mPendingFramesToInsert c1 > 0
                  then (let (vrrConfig, c2) = mVrrConfigs_at h (mVrrActiveConfig c1) c1
                        in postEvent kNextFrameInsertion (now + minFrameIntervalNs vrrConfig) c2)
                  else c1)
        in Inr (1, c3, [WriteCommandString kNodeName]))"

text \<open>\<^verbatim>\<open>doFrameInsertionLocked(int frames)\<close>\<close>

definition doFrameInsertionLocked_frames ::
  "header \<Rightarrow> int \<Rightarrow> int \<Rightarrow> bool \<Rightarrow> controller \<Rightarrow> fault + (int \<times> controller \<times> effect list)" where
  "doFrameInsertionLocked_frames h frames now wr c =
     doFrameInsertionLocked h now wr (c\<lparr>mPendingFramesToInsert := frames\<rparr>)"

definition handleCadenceChange :: "controller \<Rightarrow> controller \<times> effect list" where
  "handleCadenceChange c =
     (if mNextExpectedPresentTime (mRecord c) = None then (c, [Log WARNING])
      else (c\<lparr>mRecord := (mRecord c)\<lparr>mNextExpectedPresentTime := None\<rparr>\<rparr>, []))"

definition handleResume :: "controller \<Rightarrow> controller \<times> effect list" where
  "handleResume c =
     (if mNextExpectedPresentTime (mRecord c) = None then (c, [Log WARNING])
      else (c\<lparr>mRecord := (mRecord c)\<lparr>mNextExpectedPresentTime := None\<rparr>\<rparr>, []))"

definition kNumFramesToInsert :: int where
  "kNumFramesToInsert = 2"

text \<open>
  \<^verbatim>\<open>handleHibernate\<close> reads the clock in the frame insertion (\<open>now1\<close>) and again for the
  hibernate timeout (\<open>now2\<close>).
\<close>

definition handleHibernate ::
  "header \<Rightarrow> int \<Rightarrow> int \<Rightarrow> bool \<Rightarrow> controller \<Rightarrow> fault + (controller \<times> effect list)" where
  "handleHibernate h now1 now2 wr c =
     (case doFrameInsertionLocked_frames h kNumFramesToInsert now1 wr c of
        Inl f \<Rightarrow> Inl f
      | Inr (ret, c1, out) \<Rightarrow>
          Inr (postEvent kHibernateTimeout (now2 + kDefaultWakeUpTimeInPowerSaving h) c1,
               out @ [Log INFO]))"

definition handleStayHibernate :: "header \<Rightarrow> int \<Rightarrow> controller \<Rightarrow> controller \<times> effect list" where
  "handleStayHibernate h now2 c =
     (postEvent kHibernateTimeout (now2 + kDefaultWakeUpTimeInPowerSaving h) c, [])"

text \<open>
  The body of the worker's loop from the log line on, for the event popped: the dispatch
  on the state and the type of the event.
\<close>

definition threadBody_handle ::
  "header \<Rightarrow> VrrControllerEvent \<Rightarrow> int \<Rightarrow> int \<Rightarrow> bool \<Rightarrow> controller
     \<Rightarrow> fault + (controller \<times> effect list)" where
  "threadBody_handle h event now1 now2 wr c =
     (if mState c = kRendering then
        (let pre = [Log INFO] @
                   (if mEventType event = kHibernateTimeout then [Log ERROR] else [])
         in case mEventType event of
              kRenderingTimeout \<Rightarrow>
                (case handleHibernate h now1 now2 wr c of
                   Inl f \<Rightarrow> Inl f
                 | Inr (c1, out) \<Rightarrow> Inr (c1\<lparr>mState := kHibernate\<rparr>, pre @ out))
            | kNotifyExpectedPresentConfig \<Rightarrow>
                (let (c1, out) = handleCadenceChange c in Inr (c1, pre @ out))
            | _ \<Rightarrow> Inr (c, pre))
      else
        (let pre = [Log INFO] @
                   (if mEventType event = kRenderingTimeout then [Log ERROR] else []) @
                   (if mState c \<noteq> kHibernate then [Log ERROR] else [])
         in case mEventType event of
              kHibernateTimeout \<Rightarrow>
                (let (c1, out) = handleStayHibernate h now2 c in Inr (c1, pre @ out))
            | kNotifyExpectedPresentConfig \<Rightarrow>
                (let (c1, out) = handleResume c
                 in Inr (c1\<lparr>mState := kRendering\<rparr>, pre @ out))
            | kNextFrameInsertion \<Rightarrow>
                (case doFrameInsertionLocked h now1 wr c of
                   Inl f \<Rightarrow> Inl f
                 | Inr (ret, c1, out) \<Rightarrow> Inr (c1, pre @ out))
            | _ \<Rightarrow> Inr (c, pre)))"

text \<open>
  The dispatch of one event by the worker: \<^verbatim>\<open>top()\<close>, \<^verbatim>\<open>pop()\<close>, then the handlers, all
  under the mutex. \<open>event\<close> is the event \<^verbatim>\<open>top()\<close> returns. With an empty queue the worker
  logs an error and leaves its loop; no event is on top then.
\<close>

definition threadBody_dispatch ::
  "header \<Rightarrow> VrrControllerEvent \<Rightarrow> int \<Rightarrow> int \<Rightarrow> bool \<Rightarrow> controller
     \<Rightarrow> fault + (controller \<times> effect list)" where
  "threadBody_dispatch h event now1 now2 wr c =
     (if is_top event (mEventQueue c)
      then threadBody_handle h event now1 now2 wr
             (c\<lparr>mEventQueue := mEventQueue c - {#event#}\<rparr>)
      else Inl NotOnTop)"

subsection \<open>Reachable states\<close>

text \<open>
  Every public operation runs under \<^verbatim>\<open>mMutex\<close>, and so does the worker from the moment a
  wait returns to the end of the dispatch; the controller therefore moves by whole
  operations and whole dispatches, in any order. The worker's waits decide only when a
  dispatch happens. A dispatch is allowed here whenever the queue has an event, at any
  clock reading: every run of the program is a run of this model.
\<close>

datatype action =
  NotifyExpectedPresent int int int
| Reset
| SetActiveVrrConfiguration hwc2_config_t int
| SetEnable bool
| SetVrrConfigurations "hwc2_config_t \<rightharpoonup> VrrConfig_t"
| StopThread
| OnPresent int
| SetExpectedPresentTime int int
| OnVsync int int
| WorkerDispatch VrrControllerEvent int int bool

fun apply_action :: "header \<Rightarrow> action \<Rightarrow> controller \<Rightarrow> controller option" where
  "apply_action h (NotifyExpectedPresent ts fi now) c =
     Some (fst (snd (notifyExpectedPresent ts fi now c)))"
| "apply_action h Reset c = Some (fst (reset c))"
| "apply_action h (SetActiveVrrConfiguration cfg now) c =
     Some (fst (setActiveVrrConfiguration h cfg now c))"
| "apply_action h (SetEnable b) c = Some (fst (setEnable b c))"
| "apply_action h (SetVrrConfigurations configs) c = Some (fst (setVrrConfigurations configs c))"
| "apply_action h StopThread c = Some (fst (stopThread c))"
| "apply_action h (OnPresent now) c = Some (fst (onPresent h now c))"
| "apply_action h (SetExpectedPresentTime ts fi) c = Some (fst (setExpectedPresentTime ts fi c))"
| "apply_action h (OnVsync ts p) c = Some (fst (onVsync ts p c))"
| "apply_action h (WorkerDispatch event now1 now2 wr) c =
     (case threadBody_dispatch h event now1 now2 wr c of
        Inl f \<Rightarrow> None
      | Inr (c1, out) \<Rightarrow> Some c1)"

fun run :: "header \<Rightarrow> action list \<Rightarrow> controller \<Rightarrow> controller option" where
  "run h [] c = Some c"
| "run h (a # as) c = (case apply_action h a c of None \<Rightarrow> None | Some c1 \<Rightarrow> run h as c1)"

inductive reachable :: "header \<Rightarrow> bool \<Rightarrow> hwc2_config_t \<Rightarrow> controller \<Rightarrow> bool"
  for h :: header and node :: bool and active :: hwc2_config_t where
  reachable_new: "reachable h node active (VariableRefreshRateController_new node active)"
| reachable_step:
    "reachable h node active c \<Longrightarrow> apply_action h a c = Some c1 \<Longrightarrow> reachable h node active c1"

definition count_type :: "VrrControllerEventType \<Rightarrow> controller \<Rightarrow> nat" where
  "count_type t c = size (filter_mset (\<lambda>e. mEventType e = t) (mEventQueue c))"

subsection \<open>The worker's path to a dispatch\<close>

text \<open>
  The path through the worker's loop that reaches the dispatch of \<open>event\<close> without a
  wait being cut short: the thread is not asked to exit, the controller is enabled, the
  event is on top and its time is not after the clock reading \<open>nowNs\<close>.
\<close>

definition threadBody_due :: "int \<Rightarrow> VrrControllerEvent \<Rightarrow> controller \<Rightarrow> bool" where
  "threadBody_due nowNs event c \<longleftrightarrow>
     \<not> mThreadExit c \<and> mEnabled c \<and> is_top event (mEventQueue c) \<and> \<not> mWhenNs event > nowNs"

text \<open>A run in which every dispatch is one the worker makes on that path.\<close>

fun due_run :: "header \<Rightarrow> action list \<Rightarrow> controller \<Rightarrow> bool" where
  "due_run h [] c = True"
| "due_run h (a # as) c =
     ((case a of WorkerDispatch event now1 now2 wr \<Rightarrow> threadBody_due now1 event c | _ \<Rightarrow> True) \<and>
      (case apply_action h a c of None \<Rightarrow> False | Some c1 \<Rightarrow> due_run h as c1))"

subsection \<open>Concrete controllers\<close>

text \<open>
  The values of the spec's scenarios: a wake-up time of 500 ms, configuration 1 with a
  timeout of 30 ms and configuration 2 with one of 1 ms, both with a minimal frame
  interval of 8.333333 ms.
\<close>

definition scenario_header :: header where
  "scenario_header =
     \<lparr>kDefaultRingBufferCapacity = 128,
      VrrConfig_t_default =
        \<lparr>minFrameIntervalNs = 0, notifyExpectedPresentConfig = \<lparr>TimeoutNs = 0\<rparr>\<rparr>,
      kDefaultWakeUpTimeInPowerSaving = 500000000\<rparr>"

definition scenario_configs :: "hwc2_config_t \<rightharpoonup> VrrConfig_t" where
  "scenario_configs =
     [1 \<mapsto> \<lparr>minFrameIntervalNs = 8333333,
             notifyExpectedPresentConfig = \<lparr>TimeoutNs = 30000000\<rparr>\<rparr>,
      2 \<mapsto> \<lparr>minFrameIntervalNs = 8333333,
             notifyExpectedPresentConfig = \<lparr>TimeoutNs = 1000000\<rparr>\<rparr>]"

text \<open>A controller at the start of a burst of two frames.\<close>

definition burst_start :: controller where
  "burst_start =
     \<lparr>mEventQueue = {#},
      mRecord = \<lparr>mNextExpectedPresentTime = None, mPendingCurrentPresentTime = None,
                 mPresentHistory = []\<rparr>,
      mState = kRendering,
      mVrrActiveConfig = 1,
      mVrrConfigs = scenario_configs,
      mFileNodeWritter = True,
      mEnabled = True,
      mThreadExit = False,
      mPendingFramesToInsert = 2\<rparr>"

text \<open>A rendering controller with a present descriptor pending and a timeout queued.\<close>

definition present_pending :: controller where
  "present_pending =
     \<lparr>mEventQueue = {#\<lparr>mEventType = kRenderingTimeout, mWhenNs = 30000000\<rparr>#},
      mRecord = \<lparr>mNextExpectedPresentTime = None,
                 mPendingCurrentPresentTime =
                   Some \<lparr>config = 1, time = 16666666, duration = 16666666\<rparr>,
                 mPresentHistory = []\<rparr>,
      mState = kRendering,
      mVrrActiveConfig = 1,
      mVrrConfigs = scenario_configs,
      mFileNodeWritter = True,
      mEnabled = True,
      mThreadExit = False,
      mPendingFramesToInsert = 0\<rparr>"

text \<open>
  A hibernating controller in the middle of a burst, with no expected-present hint and a
  \<^verbatim>\<open>kNotifyExpectedPresentConfig\<close> event on top of the queue.
\<close>

definition hibernating :: controller where
  "hibernating =
     \<lparr>mEventQueue =
        {#\<lparr>mEventType = kNotifyExpectedPresentConfig, mWhenNs = 31000000\<rparr>,
          \<lparr>mEventType = kNextFrameInsertion, mWhenNs = 38333333\<rparr>,
          \<lparr>mEventType = kHibernateTimeout, mWhenNs = 530000000\<rparr>#},
      mRecord = \<lparr>mNextExpectedPresentTime = None, mPendingCurrentPresentTime = None,
                 mPresentHistory = []\<rparr>,
      mState = kHibernate,
      mVrrActiveConfig = 1,
      mVrrConfigs = scenario_configs,
      mFileNodeWritter = True,
      mEnabled = True,
      mThreadExit = False,
      mPendingFramesToInsert = 1\<rparr>"

text \<open>
  Configure, enable, activate configuration 1 at time 0; the rendering timeout fires at
  30 ms and starts a burst; configuration 2 is activated at 31 ms, while the second frame
  of the burst is still queued for 38.333333 ms; its rendering timeout fires at 32 ms and
  starts another burst.
\<close>

definition double_burst_trace :: "action list" where
  "double_burst_trace =
     [SetVrrConfigurations scenario_configs,
      SetEnable True,
      SetActiveVrrConfiguration 1 0,
      WorkerDispatch \<lparr>mEventType = kRenderingTimeout, mWhenNs = 30000000\<rparr>
        30000000 30000000 True,
      SetActiveVrrConfiguration 2 31000000,
      WorkerDispatch \<lparr>mEventType = kRenderingTimeout, mWhenNs = 32000000\<rparr>
        32000000 32000000 True]"

definition double_burst_state :: controller where
  "double_burst_state =
     \<lparr>mEventQueue =
        {#\<lparr>mEventType = kHibernateTimeout, mWhenNs = 532000000\<rparr>,
          \<lparr>mEventType = kNextFrameInsertion, mWhenNs = 40333333\<rparr>,
          \<lparr>mEventType = kHibernateTimeout, mWhenNs = 530000000\<rparr>,
          \<lparr>mEventType = kNextFrameInsertion, mWhenNs = 38333333\<rparr>#},
      mRecord = \<lparr>mNextExpectedPresentTime = None, mPendingCurrentPresentTime = None,
                 mPresentHistory = []\<rparr>,
      mState = kHibernate,
      mVrrActiveConfig = 2,
      mVrrConfigs = scenario_configs,
      mFileNodeWritter = True,
      mEnabled = True,
      mThreadExit = False,
      mPendingFramesToInsert = 1\<rparr>"

text \<open>
  The double burst after the worker has dispatched the insertion queued for 38.333333 ms:
  no frame is left to insert, and the insertion queued for 40.333333 ms is still there.
\<close>

definition double_burst_rest :: controller where
  "double_burst_rest =
     \<lparr>mEventQueue =
        {#\<lparr>mEventType = kHibernateTimeout, mWhenNs = 532000000\<rparr>,
          \<lparr>mEventType = kNextFrameInsertion, mWhenNs = 40333333\<rparr>,
          \<lparr>mEventType = kHibernateTimeout, mWhenNs = 530000000\<rparr>#},
      mRecord = \<lparr>mNextExpectedPresentTime = None, mPendingCurrentPresentTime = None,
                 mPresentHistory = []\<rparr>,
      mState = kHibernate,
      mVrrActiveConfig = 2,
      mVrrConfigs = scenario_configs,
      mFileNodeWritter = True,
      mEnabled = True,
      mThreadExit = False,
      mPendingFramesToInsert = 0\<rparr>"

text \<open>A hibernating controller that is presented a frame: \<open>hibernating\<close> with a descriptor.\<close>

definition hibernating_pending :: controller where
  "hibernating_pending =
     hibernating\<lparr>mRecord := \<lparr>mNextExpectedPresentTime = None,
                   mPendingCurrentPresentTime =
                     Some \<lparr>config = 1, time = 50000000, duration = 16666666\<rparr>,
                   mPresentHistory = []\<rparr>\<rparr>"

section \<open>Properties\<close>

lemmas op_defs =
  setVrrConfigurations_def setEnable_def setActiveVrrConfiguration_def notifyExpectedPresent_def
  reset_def stopThread_def onPresent_def setExpectedPresentTime_def onVsync_def

lemmas worker_defs =
  threadBody_dispatch_def threadBody_handle_def handleHibernate_def handleStayHibernate_def
  handleResume_def handleCadenceChange_def doFrameInsertionLocked_frames_def
  doFrameInsertionLocked_def kNumFramesToInsert_def

lemmas aux_defs =
  postEvent_def dropEventLocked_def dropEventLocked_all_def mVrrConfigs_at_def
  VrrRecord_clear_def

lemmas scenario_defs =
  scenario_header_def scenario_configs_def VariableRefreshRateController_new_def

subsection \<open>The history ring\<close>

lemma RingBuffer_next_length: "length (RingBuffer_next cap x xs) \<le> max cap (length xs)"
  by (simp add: RingBuffer_next_def)

lemma RingBuffer_next_last: "0 < cap \<Longrightarrow> last (RingBuffer_next cap x xs) = x"
  by (simp add: RingBuffer_next_def last_drop)

subsection \<open>Present records\<close>

text \<open>
  C3, as the code has it: \<^verbatim>\<open>a += b\<close> adds the counts (as \<^verbatim>\<open>uint64_t\<close>, so modulo
  \<open>2 ^ 64\<close>), takes the later of the two timestamps, and sets the updated flag, whatever
  the flags of \<open>a\<close> and \<open>b\<close> were.
\<close>

theorem DisplayPresentRecord_add_fields:
  "mCount (DisplayPresentRecord_add a b) = mCount a + mCount b \<and>
   unat (mCount (DisplayPresentRecord_add a b)) = (unat (mCount a) + unat (mCount b)) mod 2 ^ 64 \<and>
   mLastTimeStampNs (DisplayPresentRecord_add a b) =
     max (mLastTimeStampNs a) (mLastTimeStampNs b) \<and>
   mUpdated (DisplayPresentRecord_add a b) = True"
  by (simp add: DisplayPresentRecord_add_def unat_word_ariths)

text \<open>
  C3 as the spec states it fails: adding two records whose flags are both false gives a
  record whose flag is true, not the disjunction of the two flags.
\<close>

theorem DisplayPresentRecord_add_flag_counterexample:
  "mUpdated (DisplayPresentRecord_add DisplayPresentRecord_default DisplayPresentRecord_default)
     \<noteq> (mUpdated DisplayPresentRecord_default \<or> mUpdated DisplayPresentRecord_default)"
  by (simp add: DisplayPresentRecord_add_def DisplayPresentRecord_default_def)

subsection \<open>The order on display statuses\<close>

text \<open>Two parts of C4 hold: off statuses are incomparable, and the rest is lexicographic.\<close>

lemma DisplayStatus_less_both_off:
  "isOff a \<Longrightarrow> isOff b \<Longrightarrow> \<not> DisplayStatus_less a b \<and> \<not> DisplayStatus_less b a"
  by (simp add: DisplayStatus_less_def)

lemma DisplayStatus_less_neither_off:
  "\<not> isOff a \<Longrightarrow> \<not> isOff b \<Longrightarrow>
   DisplayStatus_less a b \<longleftrightarrow>
     mPowerMode a < mPowerMode b \<or>
     mPowerMode a = mPowerMode b \<and>
       (mActiveConfigId a < mActiveConfigId b \<or>
        mActiveConfigId a = mActiveConfigId b \<and> mBrightnessMode a < mBrightnessMode b)"
  by (auto simp: DisplayStatus_less_def)

text \<open>
  With one side off and the other not, \<^verbatim>\<open>operator<\<close> compares the raw power modes, and
  \<^verbatim>\<open>HWC_POWER_MODE_OFF\<close> and \<^verbatim>\<open>HWC_POWER_MODE_DOZE_SUSPEND\<close> are the least and the
  greatest of them.
\<close>

lemma DisplayStatus_less_off_left:
  "isOff a \<Longrightarrow> \<not> isOff c \<Longrightarrow> DisplayStatus_less a c \<longleftrightarrow> mPowerMode a < mPowerMode c"
  by (auto simp: DisplayStatus_less_def isOff_def)

text \<open>
  C4, the code at the failing input: an off status and a suspended status are both off,
  equal under \<^verbatim>\<open>operator==\<close> and incomparable under \<^verbatim>\<open>operator<\<close>, yet the off status is
  below a dozing status and the suspended status is not. The off statuses are not one
  class of the order.
\<close>

theorem DisplayStatus_less_off_class_split:
  "isOff status_off \<and> isOff status_doze_suspend \<and> \<not> isOff status_doze \<and>
   DisplayStatus_eq status_off status_doze_suspend \<and>
   \<not> DisplayStatus_less status_off status_doze_suspend \<and>
   \<not> DisplayStatus_less status_doze_suspend status_off \<and>
   DisplayStatus_less status_off status_doze \<and>
   \<not> DisplayStatus_less status_doze_suspend status_doze \<and>
   \<not> DisplayStatus_less status_doze status_off \<and>
   DisplayStatus_less status_doze status_doze_suspend"
  by (simp add: isOff_def DisplayStatus_eq_def DisplayStatus_less_def status_off_def
      status_doze_suspend_def status_doze_def HWC_POWER_MODE_OFF_def HWC_POWER_MODE_DOZE_def
      HWC_POWER_MODE_DOZE_SUSPEND_def)

subsection \<open>Frame insertion\<close>

text \<open>
  C1, as the code has it: with frames pending and a writer, a failed write is logged and
  the call returns -1 at once; the controller is unchanged, so the counter keeps its value
  and no \<^verbatim>\<open>kNextFrameInsertion\<close> is posted.
\<close>

theorem doFrameInsertionLocked_write_fails:
  "0 < mPendingFramesToInsert c \<Longrightarrow> mFileNodeWritter c \<Longrightarrow>
   doFrameInsertionLocked h now False c =
     Inr (- 1, c, [WriteCommandString kNodeName, Log ERROR])"
  by (simp add: doFrameInsertionLocked_def)

text \<open>The theorem of C1 at the start of a burst.\<close>

theorem doFrameInsertionLocked_write_fails_witness:
  "0 < mPendingFramesToInsert burst_start \<and> mFileNodeWritter burst_start \<and>
   doFrameInsertionLocked scenario_header 30000000 False burst_start =
     Inr (- 1, burst_start, [WriteCommandString kNodeName, Log ERROR])"
proof -
  have p: "0 < mPendingFramesToInsert burst_start" and w: "mFileNodeWritter burst_start"
    by (simp_all add: burst_start_def)
  from doFrameInsertionLocked_write_fails [OF p w] p w show ?thesis by simp
qed

text \<open>
  C1 as the spec states it fails: with two frames pending and a failing write, the counter
  is still 2 afterwards, not 1.
\<close>

theorem doFrameInsertionLocked_write_fails_counterexample:
  "mPendingFramesToInsert burst_start = 2 \<and>
   doFrameInsertionLocked scenario_header 30000000 False burst_start =
     Inr (- 1, burst_start, [WriteCommandString kNodeName, Log ERROR]) \<and>
   mPendingFramesToInsert burst_start \<noteq> 2 - 1"
  by (simp add: burst_start_def doFrameInsertionLocked_def)

subsection \<open>Enabling and disabling\<close>

text \<open>
  C6, as the code has it: \<^verbatim>\<open>setEnable(b)\<close> with \<open>b\<close> equal to the enabled flag returns at
  once, changing and signalling nothing; enabling sets the flag and signals; disabling
  clears the flag, drops every event and signals.
\<close>

theorem setEnable_cases:
  "(mEnabled c = b \<longrightarrow> setEnable b c = (c, [])) \<and>
   (\<not> mEnabled c \<and> b \<longrightarrow> setEnable b c = (c\<lparr>mEnabled := True\<rparr>, [NotifyAll])) \<and>
   (mEnabled c \<and> \<not> b \<longrightarrow>
      setEnable b c = (c\<lparr>mEnabled := False, mEventQueue := {#}\<rparr>, [NotifyAll]))"
  by (auto simp: setEnable_def dropEventLocked_all_def)

text \<open>
  The theorem of C6 at a new controller, disabled again and enabled, and at an enabled
  controller with a queued timeout, disabled.
\<close>

theorem setEnable_cases_witness:
  "setEnable False (VariableRefreshRateController_new True 0) =
     (VariableRefreshRateController_new True 0, []) \<and>
   setEnable True (VariableRefreshRateController_new True 0) =
     ((VariableRefreshRateController_new True 0)\<lparr>mEnabled := True\<rparr>, [NotifyAll]) \<and>
   mEventQueue present_pending \<noteq> {#} \<and>
   setEnable False present_pending =
     (present_pending\<lparr>mEnabled := False, mEventQueue := {#}\<rparr>, [NotifyAll])"
  using setEnable_cases [of "VariableRefreshRateController_new True 0" False]
    setEnable_cases [of "VariableRefreshRateController_new True 0" True]
    setEnable_cases [of present_pending False]
  by (simp add: VariableRefreshRateController_new_def present_pending_def)

text \<open>
  C6 as the spec states it fails: disabling a controller that is not enabled signals
  nothing.
\<close>

theorem setEnable_signal_counterexample:
  "NotifyAll \<notin> set (snd (setEnable False (VariableRefreshRateController_new True 0)))"
  by (simp add: setEnable_def VariableRefreshRateController_new_def)

subsection \<open>Presents\<close>

text \<open>
  C7: \<^verbatim>\<open>onPresent\<close> without a pending present descriptor logs a warning and returns the
  controller as it was, without a signal.
\<close>

theorem onPresent_without_descriptor:
  "mPendingCurrentPresentTime (mRecord c) = None \<Longrightarrow> onPresent h now c = (c, [Log WARNING])"
  by (simp add: onPresent_def)

text \<open>The theorem of C7 at a hibernating controller.\<close>

theorem onPresent_without_descriptor_witness:
  "mPendingCurrentPresentTime (mRecord hibernating) = None \<and>
   onPresent scenario_header 40000000 hibernating = (hibernating, [Log WARNING])"
proof -
  have n: "mPendingCurrentPresentTime (mRecord hibernating) = None"
    by (simp add: hibernating_def)
  from onPresent_without_descriptor [OF n] n show ?thesis by simp
qed

text \<open>
  C5: \<^verbatim>\<open>onPresent\<close> with a pending descriptor \<open>p\<close> and the active configuration \<open>v\<close> in the
  table stores \<open>p\<close> in the history ring and clears it; a hibernating controller becomes
  rendering and loses its hibernate timeouts; every rendering timeout and every frame
  insertion is dropped, and one rendering timeout is posted at \<open>now\<close> plus the timeout of
  \<open>v\<close>, the only one in the queue afterwards. The worker is signalled.
\<close>

theorem onPresent_with_descriptor:
  assumes "mPendingCurrentPresentTime (mRecord c) = Some p"
    and "mVrrConfigs c (mVrrActiveConfig c) = Some v"
  shows "onPresent h now c =
     (c\<lparr>mRecord := (mRecord c)
           \<lparr>mPresentHistory :=
              RingBuffer_next (kDefaultRingBufferCapacity h) p (mPresentHistory (mRecord c)),
            mPendingCurrentPresentTime := None\<rparr>,
        mState := (if mState c = kHibernate then kRendering else mState c),
        mEventQueue :=
          add_mset \<lparr>mEventType = kRenderingTimeout,
                    mWhenNs = now + TimeoutNs (notifyExpectedPresentConfig v)\<rparr>
            (filter_mset
               (\<lambda>e. mEventType e \<noteq> kRenderingTimeout \<and> mEventType e \<noteq> kNextFrameInsertion \<and>
                    (mState c = kHibernate \<longrightarrow> mEventType e \<noteq> kHibernateTimeout))
               (mEventQueue c))\<rparr>,
      [Log INFO] @ (if mState c = kHibernate then [Log WARNING] else []) @ [NotifyAll]) \<and>
   count_type kRenderingTimeout (fst (onPresent h now c)) = 1 \<and>
   count_type kNextFrameInsertion (fst (onPresent h now c)) = 0"
proof -
  have eq: "onPresent h now c =
     (c\<lparr>mRecord := (mRecord c)
           \<lparr>mPresentHistory :=
              RingBuffer_next (kDefaultRingBufferCapacity h) p (mPresentHistory (mRecord c)),
            mPendingCurrentPresentTime := None\<rparr>,
        mState := (if mState c = kHibernate then kRendering else mState c),
        mEventQueue :=
          add_mset \<lparr>mEventType = kRenderingTimeout,
                    mWhenNs = now + TimeoutNs (notifyExpectedPresentConfig v)\<rparr>
            (filter_mset
               (\<lambda>e. mEventType e \<noteq> kRenderingTimeout \<and> mEventType e \<noteq> kNextFrameInsertion \<and>
                    (mState c = kHibernate \<longrightarrow> mEventType e \<noteq> kHibernateTimeout))
               (mEventQueue c))\<rparr>,
      [Log INFO] @ (if mState c = kHibernate then [Log WARNING] else []) @ [NotifyAll])"
    using assms
    by (auto simp: onPresent_def aux_defs Let_def filter_filter_mset conj_commute
        conj_left_commute intro!: filter_mset_cong)
  show ?thesis
    unfolding eq by (auto simp: count_type_def filter_filter_mset)
qed

text \<open>
  The theorem of C5 at a rendering controller and at a hibernating one, both presented at
  60 ms with configuration 1 (timeout 30 ms) active.
\<close>

theorem onPresent_with_descriptor_witness:
  "onPresent scenario_header 60000000 present_pending =
     (present_pending
        \<lparr>mRecord := \<lparr>mNextExpectedPresentTime = None, mPendingCurrentPresentTime = None,
                     mPresentHistory = [\<lparr>config = 1, time = 16666666, duration = 16666666\<rparr>]\<rparr>,
         mEventQueue := {#\<lparr>mEventType = kRenderingTimeout, mWhenNs = 90000000\<rparr>#}\<rparr>,
      [Log INFO, NotifyAll]) \<and>
   onPresent scenario_header 60000000 hibernating_pending =
     (hibernating_pending
        \<lparr>mRecord := \<lparr>mNextExpectedPresentTime = None, mPendingCurrentPresentTime = None,
                     mPresentHistory = [\<lparr>config = 1, time = 50000000, duration = 16666666\<rparr>]\<rparr>,
         mState := kRendering,
         mEventQueue :=
           {#\<lparr>mEventType = kRenderingTimeout, mWhenNs = 90000000\<rparr>,
             \<lparr>mEventType = kNotifyExpectedPresentConfig, mWhenNs = 31000000\<rparr>#}\<rparr>,
      [Log INFO, Log WARNING, NotifyAll])"
proof -
  let ?v = "\<lparr>minFrameIntervalNs = 8333333,
             notifyExpectedPresentConfig = \<lparr>TimeoutNs = 30000000\<rparr>\<rparr>"
  have p1: "mPendingCurrentPresentTime (mRecord present_pending) =
      Some \<lparr>config = 1, time = 16666666, duration = 16666666\<rparr>"
    and v1: "mVrrConfigs present_pending (mVrrActiveConfig present_pending) = Some ?v"
    by (simp_all add: present_pending_def scenario_configs_def)
  have p2: "mPendingCurrentPresentTime (mRecord hibernating_pending) =
      Some \<lparr>config = 1, time = 50000000, duration = 16666666\<rparr>"
    and v2: "mVrrConfigs hibernating_pending (mVrrActiveConfig hibernating_pending) = Some ?v"
    by (simp_all add: hibernating_pending_def hibernating_def scenario_configs_def)
  from onPresent_with_descriptor [OF p1 v1, of scenario_header 60000000]
  have "onPresent scenario_header 60000000 present_pending =
     (present_pending
        \<lparr>mRecord := \<lparr>mNextExpectedPresentTime = None, mPendingCurrentPresentTime = None,
                     mPresentHistory = [\<lparr>config = 1, time = 16666666, duration = 16666666\<rparr>]\<rparr>,
         mEventQueue := {#\<lparr>mEventType = kRenderingTimeout, mWhenNs = 90000000\<rparr>#}\<rparr>,
      [Log INFO, NotifyAll])"
    by (simp add: present_pending_def scenario_header_def RingBuffer_next_def)
  moreover from onPresent_with_descriptor [OF p2 v2, of scenario_header 60000000]
  have "onPresent scenario_header 60000000 hibernating_pending =
     (hibernating_pending
        \<lparr>mRecord := \<lparr>mNextExpectedPresentTime = None, mPendingCurrentPresentTime = None,
                     mPresentHistory = [\<lparr>config = 1, time = 50000000, duration = 16666666\<rparr>]\<rparr>,
         mState := kRendering,
         mEventQueue :=
           {#\<lparr>mEventType = kRenderingTimeout, mWhenNs = 90000000\<rparr>,
             \<lparr>mEventType = kNotifyExpectedPresentConfig, mWhenNs = 31000000\<rparr>#}\<rparr>,
      [Log INFO, Log WARNING, NotifyAll])"
    by (simp add: hibernating_pending_def hibernating_def scenario_header_def
        RingBuffer_next_def)
  ultimately show ?thesis by (rule conjI)
qed

subsection \<open>Activating a configuration\<close>

text \<open>
  C8: \<^verbatim>\<open>setActiveVrrConfiguration\<close> with an identifier that is not in the table logs an
  error and returns the controller as it was; with an identifier in the table the state
  becomes rendering, the identifier becomes the active one, every rendering timeout is
  dropped and one is posted at \<open>now\<close> plus the timeout of that configuration, the only one
  in the queue afterwards.
\<close>

theorem setActiveVrrConfiguration_cases:
  "(mVrrConfigs c cfg = None \<longrightarrow> setActiveVrrConfiguration h cfg now c = (c, [Log ERROR])) \<and>
   (\<forall>v. mVrrConfigs c cfg = Some v \<longrightarrow>
      setActiveVrrConfiguration h cfg now c =
        (c\<lparr>mState := kRendering, mVrrActiveConfig := cfg,
           mEventQueue :=
             add_mset \<lparr>mEventType = kRenderingTimeout,
                       mWhenNs = now + TimeoutNs (notifyExpectedPresentConfig v)\<rparr>
               (filter_mset (\<lambda>e. mEventType e \<noteq> kRenderingTimeout) (mEventQueue c))\<rparr>,
         [NotifyAll]) \<and>
      filter_mset (\<lambda>e. mEventType e = kRenderingTimeout)
          (mEventQueue (fst (setActiveVrrConfiguration h cfg now c))) =
        {#\<lparr>mEventType = kRenderingTimeout,
           mWhenNs = now + TimeoutNs (notifyExpectedPresentConfig v)\<rparr>#})"
  by (auto simp: setActiveVrrConfiguration_def aux_defs Let_def)

text \<open>
  The theorem of C8 at a rendering controller with a timeout queued: identifier 3 is not
  in the table, identifier 2 has a timeout of 1 ms.
\<close>

theorem setActiveVrrConfiguration_cases_witness:
  "mVrrConfigs present_pending 3 = None \<and>
   setActiveVrrConfiguration scenario_header 3 31000000 present_pending =
     (present_pending, [Log ERROR]) \<and>
   setActiveVrrConfiguration scenario_header 2 31000000 present_pending =
     (present_pending
        \<lparr>mVrrActiveConfig := 2,
         mEventQueue := {#\<lparr>mEventType = kRenderingTimeout, mWhenNs = 32000000\<rparr>#}\<rparr>,
      [NotifyAll])"
  using setActiveVrrConfiguration_cases [of present_pending 3 scenario_header 31000000]
    setActiveVrrConfiguration_cases [of present_pending 2 scenario_header 31000000]
  by (simp add: present_pending_def scenario_configs_def)

subsection \<open>The worker's dispatch\<close>

text \<open>
  C10: when the worker dispatches a \<^verbatim>\<open>kNotifyExpectedPresentConfig\<close> event in the
  hibernate state, the state becomes rendering whether a hint is pending or not. Without
  a hint the only other changes are the popped event and a warning in the log; with a
  hint, the hint is cleared.
\<close>

theorem threadBody_dispatch_resume:
  assumes "mState c = kHibernate"
    and "mEventType e = kNotifyExpectedPresentConfig"
    and "is_top e (mEventQueue c)"
  shows "threadBody_dispatch h e now1 now2 wr c =
     Inr (if mNextExpectedPresentTime (mRecord c) = None
          then (c\<lparr>mEventQueue := mEventQueue c - {#e#}, mState := kRendering\<rparr>,
                [Log INFO, Log WARNING])
          else (c\<lparr>mEventQueue := mEventQueue c - {#e#},
                  mRecord := (mRecord c)\<lparr>mNextExpectedPresentTime := None\<rparr>,
                  mState := kRendering\<rparr>,
                [Log INFO]))"
  using assms by (simp add: threadBody_dispatch_def threadBody_handle_def handleResume_def)

text \<open>
  The theorem of C10 at a hibernating controller without a hint, whose earliest event is
  the notification.
\<close>

theorem threadBody_dispatch_resume_witness:
  "mState hibernating = kHibernate \<and>
   is_top \<lparr>mEventType = kNotifyExpectedPresentConfig, mWhenNs = 31000000\<rparr>
     (mEventQueue hibernating) \<and>
   mNextExpectedPresentTime (mRecord hibernating) = None \<and>
   threadBody_dispatch scenario_header
       \<lparr>mEventType = kNotifyExpectedPresentConfig, mWhenNs = 31000000\<rparr>
       31000000 31000000 True hibernating =
     Inr (hibernating
            \<lparr>mEventQueue :=
               {#\<lparr>mEventType = kNextFrameInsertion, mWhenNs = 38333333\<rparr>,
                 \<lparr>mEventType = kHibernateTimeout, mWhenNs = 530000000\<rparr>#},
             mState := kRendering\<rparr>,
          [Log INFO, Log WARNING])"
proof -
  let ?e = "\<lparr>mEventType = kNotifyExpectedPresentConfig, mWhenNs = 31000000\<rparr>"
  have s: "mState hibernating = kHibernate"
    by (simp add: hibernating_def)
  have t: "mEventType ?e = kNotifyExpectedPresentConfig"
    by simp
  have q: "is_top ?e (mEventQueue hibernating)"
    by (simp add: hibernating_def is_top_def)
  have n: "mNextExpectedPresentTime (mRecord hibernating) = None"
    by (simp add: hibernating_def)
  have m: "mEventQueue hibernating - {#?e#} =
      {#\<lparr>mEventType = kNextFrameInsertion, mWhenNs = 38333333\<rparr>,
        \<lparr>mEventType = kHibernateTimeout, mWhenNs = 530000000\<rparr>#}"
    by (simp add: hibernating_def)
  from threadBody_dispatch_resume [OF s t q, of scenario_header 31000000 31000000 True] s q n m
  show ?thesis by simp
qed

subsection \<open>Runs\<close>

lemma run_reachable:
  "reachable h node active c \<Longrightarrow> run h as c = Some c1 \<Longrightarrow> reachable h node active c1"
proof (induction as arbitrary: c)
  case Nil
  then show ?case by simp
next
  case (Cons a as)
  then show ?case by (auto split: option.splits intro: reachable_step)
qed

lemma run_double_burst:
  "run scenario_header double_burst_trace (VariableRefreshRateController_new True 0) =
     Some double_burst_state"
  by (simp add: double_burst_trace_def double_burst_state_def scenario_defs op_defs
      worker_defs is_top_def aux_defs Let_def)

lemma due_run_double_burst:
  "due_run scenario_header double_burst_trace (VariableRefreshRateController_new True 0)"
  by (simp add: double_burst_trace_def threadBody_due_def scenario_defs op_defs worker_defs
      is_top_def aux_defs Let_def)

lemma reachable_double_burst: "reachable scenario_header True 0 double_burst_state"
  by (rule run_reachable [OF reachable_new run_double_burst])

subsection \<open>The counter of frames to insert\<close>

lemma doFrameInsertionLocked_pending:
  "doFrameInsertionLocked h now wr c = Inr (r, c1, out) \<Longrightarrow>
   mPendingFramesToInsert c1 = mPendingFramesToInsert c \<or>
   (0 < mPendingFramesToInsert c \<and> wr \<and>
    mPendingFramesToInsert c1 = mPendingFramesToInsert c - 1)"
  by (auto simp: doFrameInsertionLocked_def aux_defs Let_def split: if_splits option.splits)

lemma handleHibernate_pending:
  "handleHibernate h now1 now2 wr c = Inr (c1, out) \<Longrightarrow>
   mPendingFramesToInsert c1 = kNumFramesToInsert \<or>
   mPendingFramesToInsert c1 = kNumFramesToInsert - 1"
  by (auto simp: handleHibernate_def doFrameInsertionLocked_frames_def postEvent_def
      split: sum.splits dest!: doFrameInsertionLocked_pending)

lemma threadBody_handle_pending:
  "threadBody_handle h e now1 now2 wr c = Inr (c1, out) \<Longrightarrow>
   mPendingFramesToInsert c1 = mPendingFramesToInsert c \<or>
   (mEventType e = kNextFrameInsertion \<and> mState c \<noteq> kRendering \<and>
      0 < mPendingFramesToInsert c \<and>
      mPendingFramesToInsert c1 = mPendingFramesToInsert c - 1) \<or>
   (mEventType e = kRenderingTimeout \<and> mState c = kRendering \<and>
      (mPendingFramesToInsert c1 = kNumFramesToInsert \<or>
       mPendingFramesToInsert c1 = kNumFramesToInsert - 1))"
  by (auto simp: threadBody_handle_def handleStayHibernate_def handleResume_def
      handleCadenceChange_def postEvent_def Let_def
      split: if_splits VrrControllerEventType.splits sum.splits
      dest!: doFrameInsertionLocked_pending handleHibernate_pending)

lemma apply_action_pending:
  "apply_action h a c = Some c1 \<Longrightarrow>
   mPendingFramesToInsert c1 = mPendingFramesToInsert c \<or>
   (\<exists>e now1 now2 wr. a = WorkerDispatch e now1 now2 wr \<and>
      ((mEventType e = kNextFrameInsertion \<and> mState c \<noteq> kRendering \<and>
          0 < mPendingFramesToInsert c \<and>
          mPendingFramesToInsert c1 = mPendingFramesToInsert c - 1) \<or>
       (mEventType e = kRenderingTimeout \<and> mState c = kRendering \<and>
          (mPendingFramesToInsert c1 = kNumFramesToInsert \<or>
           mPendingFramesToInsert c1 = kNumFramesToInsert - 1))))"
proof (cases a)
  case (WorkerDispatch e now1 now2 wr)
  assume a: "apply_action h a c = Some c1"
  from a WorkerDispatch obtain out where
    d: "threadBody_handle h e now1 now2 wr (c\<lparr>mEventQueue := mEventQueue c - {#e#}\<rparr>) =
          Inr (c1, out)"
    by (auto simp: threadBody_dispatch_def split: if_splits sum.splits)
  from threadBody_handle_pending [OF d] WorkerDispatch show ?thesis by simp
qed (auto simp: op_defs aux_defs Let_def split: if_splits option.splits)

lemma pending_nonneg: "reachable h node active c \<Longrightarrow> 0 \<le> mPendingFramesToInsert c"
proof (induction rule: reachable.induct)
  case reachable_new
  show ?case by (simp add: VariableRefreshRateController_new_def)
next
  case (reachable_step c a c1)
  from apply_action_pending [OF reachable_step.hyps(2)] reachable_step.IH
  show ?case by (auto simp: kNumFramesToInsert_def)
qed

text \<open>
  C9: in every reachable state the counter of frames to insert is not negative. The
  frame-insertion handler leaves it as it is or, after a write that succeeded, takes one
  off a positive counter. No public operation changes it. A dispatch of the worker
  changes it in two cases only: a \<^verbatim>\<open>kNextFrameInsertion\<close> event outside the rendering
  state, where the handler takes one off; and a \<^verbatim>\<open>kRenderingTimeout\<close> event in the
  rendering state, where \<^verbatim>\<open>handleHibernate\<close> sets it to the burst size 2 and the handler
  may take one off.
\<close>

theorem pending_frames_counter:
  assumes "reachable h node active c"
  shows "0 \<le> mPendingFramesToInsert c \<and>
    (\<forall>now wr r c1 out. doFrameInsertionLocked h now wr c = Inr (r, c1, out) \<longrightarrow>
       mPendingFramesToInsert c1 = mPendingFramesToInsert c \<or>
       (0 < mPendingFramesToInsert c \<and> wr \<and>
        mPendingFramesToInsert c1 = mPendingFramesToInsert c - 1)) \<and>
    (\<forall>a c1. apply_action h a c = Some c1 \<longrightarrow>
       mPendingFramesToInsert c1 = mPendingFramesToInsert c \<or>
       (\<exists>e now1 now2 wr. a = WorkerDispatch e now1 now2 wr \<and>
          ((mEventType e = kNextFrameInsertion \<and> mState c \<noteq> kRendering \<and>
              0 < mPendingFramesToInsert c \<and>
              mPendingFramesToInsert c1 = mPendingFramesToInsert c - 1) \<or>
           (mEventType e = kRenderingTimeout \<and> mState c = kRendering \<and>
              (mPendingFramesToInsert c1 = kNumFramesToInsert \<or>
               mPendingFramesToInsert c1 = kNumFramesToInsert - 1)))))"
  using assms
  by (blast intro: pending_nonneg dest: doFrameInsertionLocked_pending apply_action_pending)

text \<open>
  The theorem of C9 at the state the double burst reaches, where one frame is pending and
  the dispatch of the queued insertion takes it off.
\<close>

theorem pending_frames_counter_witness:
  "reachable scenario_header True 0 double_burst_state \<and>
   0 \<le> mPendingFramesToInsert double_burst_state \<and>
   mPendingFramesToInsert double_burst_state = 1 \<and>
   apply_action scenario_header
       (WorkerDispatch \<lparr>mEventType = kNextFrameInsertion, mWhenNs = 38333333\<rparr>
          38333333 38333333 True)
       double_burst_state = Some double_burst_rest \<and>
   mPendingFramesToInsert double_burst_rest = mPendingFramesToInsert double_burst_state - 1"
proof -
  let ?a = "WorkerDispatch \<lparr>mEventType = kNextFrameInsertion, mWhenNs = 38333333\<rparr>
              38333333 38333333 True"
  have r: "reachable scenario_header True 0 double_burst_state"
    by (rule reachable_double_burst)
  have n: "0 \<le> mPendingFramesToInsert double_burst_state"
    using pending_frames_counter [OF r] by blast
  have p: "mPendingFramesToInsert double_burst_state = 1"
    by (simp add: double_burst_state_def)
  have a: "apply_action scenario_header ?a double_burst_state = Some double_burst_rest"
    by (simp add: double_burst_state_def double_burst_rest_def worker_defs is_top_def
        aux_defs scenario_configs_def Let_def)
  have d: "mPendingFramesToInsert double_burst_rest =
      mPendingFramesToInsert double_burst_state - 1"
    by (simp add: double_burst_state_def double_burst_rest_def)
  from r n p a d show ?thesis by blast
qed

subsection \<open>Timeouts and insertions in the queue\<close>

lemma count_type_pop:
  "count_type t (c\<lparr>mEventQueue := mEventQueue c - {#e#}\<rparr>) \<le> count_type t c"
  by (simp add: count_type_def size_mset_mono multiset_filter_mono diff_subset_eq_self)

lemma threadBody_handle_RenderingTimeout:
  "threadBody_handle h e now1 now2 wr c = Inr (c1, out) \<Longrightarrow>
   count_type kRenderingTimeout c1 = count_type kRenderingTimeout c"
  by (auto simp: worker_defs count_type_def aux_defs Let_def
      split: if_splits option.splits VrrControllerEventType.splits sum.splits)

lemma apply_action_RenderingTimeout:
  "apply_action h a c = Some c1 \<Longrightarrow> count_type kRenderingTimeout c \<le> 1 \<Longrightarrow>
   count_type kRenderingTimeout c1 \<le> 1"
proof (cases a)
  case (WorkerDispatch e now1 now2 wr)
  assume a: "apply_action h a c = Some c1" and i: "count_type kRenderingTimeout c \<le> 1"
  from a WorkerDispatch obtain out where
    d: "threadBody_handle h e now1 now2 wr (c\<lparr>mEventQueue := mEventQueue c - {#e#}\<rparr>) =
          Inr (c1, out)"
    by (auto simp: threadBody_dispatch_def split: if_splits sum.splits)
  from threadBody_handle_RenderingTimeout [OF d] count_type_pop [of kRenderingTimeout c e] i
  show ?thesis by simp
qed (auto simp: op_defs count_type_def aux_defs Let_def split: if_splits option.splits)

text \<open>
  The half of C2 about rendering timeouts holds: no reachable state has two of them in the
  queue, since both operations that post one drop the others first.
\<close>

lemma RenderingTimeout_at_most_one:
  "reachable h node active c \<Longrightarrow> count_type kRenderingTimeout c \<le> 1"
proof (induction rule: reachable.induct)
  case reachable_new
  show ?case by (simp add: count_type_def VariableRefreshRateController_new_def)
next
  case (reachable_step c a c1)
  then show ?case by (blast intro: apply_action_RenderingTimeout)
qed

text \<open>
  C2, the code at the failing input: the double burst is a run of the controller in which
  every dispatch is due, and the state it reaches has two \<^verbatim>\<open>kNextFrameInsertion\<close> events
  in the queue and one frame to insert. The worker then dispatches the first of the two,
  which leaves no frame to insert, and at the second the frame-insertion handler logs its
  error that the number of frames should be at least 1.
\<close>

theorem double_burst_two_insertions:
  "run scenario_header double_burst_trace (VariableRefreshRateController_new True 0) =
     Some double_burst_state \<and>
   due_run scenario_header double_burst_trace (VariableRefreshRateController_new True 0) \<and>
   reachable scenario_header True 0 double_burst_state \<and>
   count_type kNextFrameInsertion double_burst_state = 2 \<and>
   count_type kRenderingTimeout double_burst_state = 0 \<and>
   threadBody_dispatch scenario_header
       \<lparr>mEventType = kNextFrameInsertion, mWhenNs = 38333333\<rparr> 38333333 38333333 True
       double_burst_state =
     Inr (double_burst_rest, [Log INFO, WriteCommandString kNodeName]) \<and>
   threadBody_dispatch scenario_header
       \<lparr>mEventType = kNextFrameInsertion, mWhenNs = 40333333\<rparr> 40333333 40333333 True
       double_burst_rest =
     Inr (double_burst_rest
            \<lparr>mEventQueue :=
               {#\<lparr>mEventType = kHibernateTimeout, mWhenNs = 532000000\<rparr>,
                 \<lparr>mEventType = kHibernateTimeout, mWhenNs = 530000000\<rparr>#}\<rparr>,
          [Log INFO, Log ERROR])"
proof -
  have "count_type kNextFrameInsertion double_burst_state = 2"
    and "count_type kRenderingTimeout double_burst_state = 0"
    by (simp_all add: count_type_def double_burst_state_def)
  moreover have "threadBody_dispatch scenario_header
       \<lparr>mEventType = kNextFrameInsertion, mWhenNs = 38333333\<rparr> 38333333 38333333 True
       double_burst_state =
     Inr (double_burst_rest, [Log INFO, WriteCommandString kNodeName])"
    by (simp add: double_burst_state_def double_burst_rest_def worker_defs is_top_def
        aux_defs scenario_configs_def Let_def)
  moreover have "threadBody_dispatch scenario_header
       \<lparr>mEventType = kNextFrameInsertion, mWhenNs = 40333333\<rparr> 40333333 40333333 True
       double_burst_rest =
     Inr (double_burst_rest
            \<lparr>mEventQueue :=
               {#\<lparr>mEventType = kHibernateTimeout, mWhenNs = 532000000\<rparr>,
                 \<lparr>mEventType = kHibernateTimeout, mWhenNs = 530000000\<rparr>#}\<rparr>,
          [Log INFO, Log ERROR])"
    by (simp add: double_burst_rest_def worker_defs is_top_def aux_defs Let_def)
  ultimately show ?thesis
    using run_double_burst due_run_double_burst reachable_double_burst by blast
qed

end
